theory Spec2Isabelle
  imports Main
begin

section \<open>JavaScript strings and numbers\<close>

text \<open>
  A JavaScript string is a sequence of 16-bit code units. Strings are modelled as lists
  of 8-bit characters, read as the code units 0 to 255: the development covers the
  inputs whose code units all lie in that range (ASCII and the Latin-1 supplement). On
  that range the regular-expression classes \<^verbatim>\<open>\d\<close>, \<^verbatim>\<open>\D\<close>, \<^verbatim>\<open>\s\<close>, \<^verbatim>\<open>[A-Z]\<close>,
  \<^verbatim>\<open>[0-9]\<close>, \<^verbatim>\<open>trim\<close> and \<^verbatim>\<open>toUpperCase\<close> are the functions below. The white space
  of \<^verbatim>\<open>\s\<close>, of \<^verbatim>\<open>trim\<close> and of \<^verbatim>\<open>Number\<close> is the same set there: tab, line feed,
  vertical tab, form feed, carriage return, space and the no-break space (160).

  A JavaScript number that may be \<^verbatim>\<open>NaN\<close> is a \<open>nat option\<close>, with \<open>None\<close> for
  \<^verbatim>\<open>NaN\<close>: arithmetic on \<^verbatim>\<open>NaN\<close> gives \<^verbatim>\<open>NaN\<close>, and every comparison with
  \<^verbatim>\<open>NaN\<close> is false.
\<close>

definition isDigit :: "char \<Rightarrow> bool" where
  "isDigit c = (48 \<le> (of_char c :: nat) \<and> (of_char c :: nat) \<le> 57)"

definition isUpper :: "char \<Rightarrow> bool" where
  "isUpper c = (65 \<le> (of_char c :: nat) \<and> (of_char c :: nat) \<le> 90)"

definition isSpace :: "char \<Rightarrow> bool" where
  "isSpace c = ((of_char c :: nat) \<in> {9, 10, 11, 12, 13, 32, 160})"

definition digitValue :: "char \<Rightarrow> nat" where
  "digitValue c = (of_char c :: nat) - 48"

text \<open>\<^verbatim>\<open>s.substring(a, b)\<close> for \<open>a \<le> b\<close> (every call of the source), and \<^verbatim>\<open>s.substring(a)\<close>.
  Indices beyond the end are clamped, as \<open>take\<close> and \<open>drop\<close> do.\<close>

definition substring :: "nat \<Rightarrow> nat \<Rightarrow> string \<Rightarrow> string" where
  "substring a b s = take (b - a) (drop a s)"

definition substringFrom :: "nat \<Rightarrow> string \<Rightarrow> string" where
  "substringFrom a s = drop a s"

text \<open>\<^verbatim>\<open>Number(s[i])\<close>: a digit gives its value, a white-space character gives 0 (the
  string is trimmed to the empty string first), any other character gives \<^verbatim>\<open>NaN\<close>,
  and so does an index beyond the end (\<^verbatim>\<open>Number(undefined)\<close>).\<close>

definition jsNumberAt :: "string \<Rightarrow> nat \<Rightarrow> nat option" where
  "jsNumberAt s i =
     (if i < length s then
        (if isDigit (s ! i) then Some (digitValue (s ! i))
         else if isSpace (s ! i) then Some 0
         else None)
      else None)"

text \<open>\<^verbatim>\<open>parseInt(s.charAt(i), 10)\<close>: a digit gives its value, everything else
  (\<^verbatim>\<open>charAt\<close> beyond the end is the empty string) gives \<^verbatim>\<open>NaN\<close>.\<close>

definition parseIntCharAt :: "string \<Rightarrow> nat \<Rightarrow> nat option" where
  "parseIntCharAt s i =
     (if i < length s \<and> isDigit (s ! i) then Some (digitValue (s ! i)) else None)"

text \<open>\<^verbatim>\<open>/^0+$/.test(s)\<close>\<close>

definition allZeros :: "string \<Rightarrow> bool" where
  "allZeros s = (s \<noteq> [] \<and> list_all (\<lambda>c. c = CHR ''0'') s)"

text \<open>\<^verbatim>\<open>s.replace(/\D+/g, '')\<close>\<close>

definition removeNonDigits :: "string \<Rightarrow> string" where
  "removeNonDigits s = filter isDigit s"

section \<open>The tax-office registry\<close>

text \<open>
  \<^verbatim>\<open>BUFA_MAP\<close> and the type \<^verbatim>\<open>FinanzamtInfo\<close> live in \<^verbatim>\<open>finanzamtsdaten.ts\<close>, which
  is not part of the sources at hand. The registry is therefore a parameter of every
  function that reads it: an association list in the order in which \<^verbatim>\<open>Object.entries\<close>
  enumerates the object. The fields of an entry are the ones the code reads.
\<close>

record FinanzamtInfo =
  finanzamtsnummer :: string
  verfahren :: string
  bundesland :: string

type_synonym registry = "(string \<times> FinanzamtInfo) list"

text \<open>\<^verbatim>\<open>BUFA_MAP[bufa]\<close>\<close>

definition BUFA_MAP :: "registry \<Rightarrow> string \<Rightarrow> FinanzamtInfo option" where
  "BUFA_MAP reg k = map_of reg k"

section \<open>Checksum procedures (prufziffernverfahren.ts)\<close>

definition BERLIN_A_MULTIPLIERS :: "nat list" where
  "BERLIN_A_MULTIPLIERS = [0, 0, 0, 0, 0, 7, 6, 5, 8, 4, 3, 2]"

definition BERLIN_B_MULTIPLIERS :: "nat list" where
  "BERLIN_B_MULTIPLIERS = [0, 0, 2, 9, 0, 8, 7, 6, 5, 4, 3, 2]"

definition NRW_MULTIPLIERS :: "nat list" where
  "NRW_MULTIPLIERS = [0, 3, 2, 1, 0, 7, 6, 5, 4, 3, 2, 1]"

text \<open>One pass of the loop body \<^verbatim>\<open>sum += f(Number(s[i]), i)\<close>, with \<^verbatim>\<open>NaN\<close> absorbing.\<close>

definition addTerm :: "string \<Rightarrow> (nat \<Rightarrow> nat \<Rightarrow> nat) \<Rightarrow> nat option \<Rightarrow> nat \<Rightarrow> nat option" where
  "addTerm s f acc i =
     (case acc of
        None \<Rightarrow> None
      | Some sm \<Rightarrow> (case jsNumberAt s i of None \<Rightarrow> None | Some d \<Rightarrow> Some (sm + f d i)))"

text \<open>The term of \<^verbatim>\<open>pruefzifferBayern\<close>:
  \<^verbatim>\<open>p = Number(elster13[i]) * base[i]; p > 9 ? (p % 10) + 1 : p\<close>\<close>

definition bayernBase :: "nat list" where
  "bayernBase = [1, 2, 1, 2, 1, 2, 1, 2, 1, 2, 1, 2]"

definition bayernTerm :: "nat \<Rightarrow> nat \<Rightarrow> nat" where
  "bayernTerm d i = (let p = d * bayernBase ! i in if p > 9 then (p mod 10) + 1 else p)"

definition pruefzifferBayern :: "string \<Rightarrow> nat option" where
  "pruefzifferBayern elster13 =
     map_option (\<lambda>sm. (10 - (sm mod 10)) mod 10)
       (foldl (addTerm elster13 bayernTerm) (Some 0) [0..<12])"

definition computeWeightedCheckDigit :: "string \<Rightarrow> nat list \<Rightarrow> nat option" where
  "computeWeightedCheckDigit body multipliers =
     map_option (\<lambda>sm. (sm mod 11) mod 10)
       (foldl (addTerm body (\<lambda>d i. d * multipliers ! i)) (Some 0) [0..<12])"

text \<open>\<^verbatim>\<open>a === b\<close> on numbers: false as soon as one side is \<^verbatim>\<open>NaN\<close>.\<close>

definition numEq :: "nat option \<Rightarrow> nat option \<Rightarrow> bool" where
  "numEq a b = (case (a, b) of (Some x, Some y) \<Rightarrow> x = y | _ \<Rightarrow> False)"

definition validatePruefziffer :: "string \<Rightarrow> FinanzamtInfo \<Rightarrow> bool" where
  "validatePruefziffer elster13 info =
     (let body = substring 0 12 elster13;
          checkDigit = jsNumberAt elster13 12
      in if verfahren info = ''BERLIN_A'' then
           numEq (computeWeightedCheckDigit body BERLIN_A_MULTIPLIERS) checkDigit
         else if verfahren info = ''BERLIN_B'' then
           numEq (computeWeightedCheckDigit body BERLIN_B_MULTIPLIERS) checkDigit
         else if verfahren info = ''BAYERN_11ER'' then
           numEq (pruefzifferBayern elster13) checkDigit
         else if verfahren info = ''NRW'' then
           numEq (computeWeightedCheckDigit body NRW_MULTIPLIERS) checkDigit
         else numEq (pruefzifferBayern elster13) checkDigit)"

section \<open>Normalization (normalization.ts)\<close>

definition normalizeSteuernummer :: "string \<Rightarrow> string" where
  "normalizeSteuernummer input =
     (if input = [] then []
      else let digits = removeNonDigits input
           in if length digits = 10 then digits
              else if length digits = 11 then digits
              else if length digits = 12 then digits
              else if length digits = 13 then digits
              else [])"

text \<open>\<open>None\<close> is the \<^verbatim>\<open>null\<close> of the source.\<close>

definition normalizeTo13Digits :: "string \<Rightarrow> string \<Rightarrow> string option" where
  "normalizeTo13Digits input code =
     (let digits = removeNonDigits input;
          LL = substring 0 2 code;
          isNRW = (LL = ''05'')
      in if length digits = 10 then
           (let FF_in = substring 0 2 digits;
                BBB = substring 2 5 digits;
                UUUU = substring 5 9 digits;
                P = substringFrom 9 digits
            in if \<not> isNRW then Some (LL @ FF_in @ ''0'' @ BBB @ UUUU @ P)
               else (let BBBB = substring 2 6 digits;
                         UUUP = substring 6 10 digits
                     in Some (LL @ FF_in @ ''0'' @ BBBB @ UUUP)))
         else if length digits = 11 then
           (let FF_in = substring 0 2 digits
            in if \<not> isNRW then
                 (let BBB = substring 2 5 digits;
                      UUUU = substring 5 9 digits;
                      P = substring 9 11 digits
                  in Some (LL @ FF_in @ ''0'' @ BBB @ UUUU @ P))
               else (let BBBB = substring 2 6 digits;
                         UUUP = substring 6 11 digits
                     in Some (LL @ FF_in @ ''0'' @ BBBB @ UUUP)))
         else if length digits = 12 then
           (let LL_in = substring 0 2 digits;
                FF_in = substring 2 4 digits
            in if \<not> isNRW then
                 (let BBB = substring 4 7 digits;
                      UUUU = substring 7 11 digits;
                      P = substring 11 12 digits
                  in Some (LL_in @ FF_in @ ''0'' @ BBB @ UUUU @ P))
               else (let BBBB = substring 4 8 digits;
                         UUUP = substring 8 12 digits
                     in Some (LL_in @ FF_in @ ''0'' @ BBBB @ UUUP)))
         else if length digits = 13 then Some digits
         else None)"

section \<open>The tax-number validator (validation-tax-number.ts)\<close>

text \<open>The \<^verbatim>\<open>reason\<close> strings of the source, one constructor per literal (the umlaut
  of the source written \<open>ue\<close>).\<close>

datatype reason_msg =
    InvalidLengthOrCharacters   \<comment> \<open>'Invalid length or characters'\<close>
  | AllZeros                    \<comment> \<open>'Tax number cannot be all zeros'\<close>
  | UnknownFinanzamt            \<comment> \<open>'Unknown Finanzamt number - no matching BUFA found'\<close>
  | InvalidForAllBufas          \<comment> \<open>'Invalid check digit (Pruefziffer) for all possible BUFAs'\<close>
  | UnknownBufaCode             \<comment> \<open>'Unknown BUFA code - not a valid German tax office'\<close>
  | CannotConvert               \<comment> \<open>'Cannot convert to 13-digit format'\<close>
  | InvalidCheckDigit           \<comment> \<open>'Invalid check digit (Pruefziffer)'\<close>
  | UnknownBufaOrFinanzamt      \<comment> \<open>'Unknown BUFA or Finanzamt'\<close>
  | InvalidPruefziffer          \<comment> \<open>'Invalid Pruefziffer'\<close>
  | InvalidLength               \<comment> \<open>'Invalid length: must be 10, 11, 12, or 13 digits'\<close>

text \<open>The object the validators return; an absent property is \<open>None\<close>.\<close>

record outcome =
  valid :: bool
  normalized :: "string option"
  bufa :: "string option"
  stateName :: "string option"   \<comment> \<open>property \<^verbatim>\<open>bundesland\<close> of the result\<close>
  reason :: "reason_msg option"

definition rejected :: "reason_msg \<Rightarrow> outcome" where
  "rejected r = \<lparr>valid = False, normalized = None, bufa = None, stateName = None,
                 reason = Some r\<rparr>"

definition accepted :: "string \<Rightarrow> string \<Rightarrow> FinanzamtInfo \<Rightarrow> outcome" where
  "accepted n code info = \<lparr>valid = True, normalized = Some n, bufa = Some code,
                           stateName = Some (bundesland info), reason = None\<rparr>"

fun findPossibleBufas :: "registry \<Rightarrow> string \<Rightarrow> string list" where
  "findPossibleBufas [] finanzamtNumber = []"
| "findPossibleBufas ((code, info) # rest) finanzamtNumber =
     (if finanzamtsnummer info = finanzamtNumber
      then code # findPossibleBufas rest finanzamtNumber
      else findPossibleBufas rest finanzamtNumber)"

text \<open>
  The loop \<^verbatim>\<open>for (const bufa of possibleBufas)\<close> of \<^verbatim>\<open>validate10DigitFormat\<close> and
  \<^verbatim>\<open>validate11DigitFormat\<close>: \<open>Some\<close> is the early \<^verbatim>\<open>return\<close>, \<open>None\<close> is falling out
  of the loop. A conversion that is \<^verbatim>\<open>null\<close> or the empty string is skipped
  (\<^verbatim>\<open>if (converted13Digit)\<close>). Every code of the list is a key of the registry, so the
  lookup in the loop finds an entry (lemma \<open>findPossibleBufas_lookup\<close>); the branch for
  a missing entry only makes the function total.
\<close>

fun tryBufas :: "registry \<Rightarrow> string \<Rightarrow> string list \<Rightarrow> outcome option" where
  "tryBufas reg n [] = None"
| "tryBufas reg n (code # rest) =
     (case normalizeTo13Digits n code of
        None \<Rightarrow> tryBufas reg n rest
      | Some converted13Digit \<Rightarrow>
          (if converted13Digit = [] then tryBufas reg n rest
           else (case BUFA_MAP reg code of
                   None \<Rightarrow> tryBufas reg n rest
                 | Some info \<Rightarrow>
                     (if validatePruefziffer converted13Digit info
                      then Some (accepted converted13Digit code info)
                      else tryBufas reg n rest))))"

definition validate10DigitFormat :: "registry \<Rightarrow> string \<Rightarrow> outcome" where
  "validate10DigitFormat reg n =
     (if allZeros n then rejected AllZeros
      else let finanzamtNumber = substring 0 2 n;
               possibleBufas = findPossibleBufas reg finanzamtNumber
           in if length possibleBufas = 0 then rejected UnknownFinanzamt
              else (case tryBufas reg n possibleBufas of
                      Some r \<Rightarrow> r
                    | None \<Rightarrow> rejected InvalidForAllBufas))"

definition validate11DigitFormat :: "registry \<Rightarrow> string \<Rightarrow> outcome" where
  "validate11DigitFormat reg n =
     (if allZeros n then rejected AllZeros
      else let finanzamtNumber = substring 0 2 n;
               possibleBufas = findPossibleBufas reg finanzamtNumber
           in if length possibleBufas = 0 then rejected UnknownFinanzamt
              else (case tryBufas reg n possibleBufas of
                      Some r \<Rightarrow> r
                    | None \<Rightarrow> rejected InvalidForAllBufas))"

definition validate12DigitFormat :: "registry \<Rightarrow> string \<Rightarrow> outcome" where
  "validate12DigitFormat reg n =
     (if allZeros n then rejected AllZeros
      else let code = substring 0 4 n
           in (case BUFA_MAP reg code of
                 None \<Rightarrow> rejected UnknownBufaCode
               | Some info \<Rightarrow>
                   (case normalizeTo13Digits n code of
                      None \<Rightarrow> rejected CannotConvert
                    | Some converted13Digit \<Rightarrow>
                        (if converted13Digit = [] then rejected CannotConvert
                         else if \<not> validatePruefziffer converted13Digit info
                              then rejected InvalidCheckDigit
                         else accepted converted13Digit code info))))"

definition validate13DigitFormat :: "registry \<Rightarrow> string \<Rightarrow> outcome" where
  "validate13DigitFormat reg n =
     (let landesnummer = substring 0 2 n;
          finanzamtsnummer' = substring 2 4 n;
          code = landesnummer @ finanzamtsnummer'
      in (case BUFA_MAP reg code of
            None \<Rightarrow> rejected UnknownBufaOrFinanzamt
          | Some info \<Rightarrow>
              (if \<not> validatePruefziffer n info
               then \<lparr>valid = False, normalized = None, bufa = Some code,
                     stateName = Some (bundesland info), reason = Some InvalidPruefziffer\<rparr>
               else accepted n code info)))"

definition validateSteuernummer :: "registry \<Rightarrow> string \<Rightarrow> outcome" where
  "validateSteuernummer reg input =
     (let n = normalizeSteuernummer input
      in if n = [] then rejected InvalidLengthOrCharacters
         else if length n = 10 then validate10DigitFormat reg n
         else if length n = 11 then validate11DigitFormat reg n
         else if length n = 12 then validate12DigitFormat reg n
         else if length n = 13 then validate13DigitFormat reg n
         else rejected InvalidLength)"

text \<open>
  The one entry of the registry that the repository's tests pin down: code 1116 is a
  Berlin office checked with procedure \<^verbatim>\<open>BERLIN_A\<close>. Its field \<^verbatim>\<open>finanzamtsnummer\<close>
  is taken to be the office number 16, the way \<^verbatim>\<open>validate13DigitFormat\<close> names the
  digits 3 and 4 of a code. It serves as a concrete registry wherever a statement is
  evaluated.
\<close>

definition sampleRegistry :: registry where
  "sampleRegistry =
     [(''1116'', \<lparr>finanzamtsnummer = ''16'', verfahren = ''BERLIN_A'', bundesland = ''Berlin''\<rparr>)]"

text \<open>
  What the registry is assumed to look like where a statement depends on it: every code
  has four characters, and the field \<^verbatim>\<open>finanzamtsnummer\<close> of an entry is the office
  number of its code (characters 3 and 4).
\<close>

definition codesWellFormed :: "registry \<Rightarrow> bool" where
  "codesWellFormed reg = list_all (\<lambda>e. length (fst e) = 4) reg"

definition officeNumbersConsistent :: "registry \<Rightarrow> bool" where
  "officeNumbersConsistent reg =
     list_all (\<lambda>e. finanzamtsnummer (snd e) = substring 2 4 (fst e)) reg"

text \<open>A registry with an office number 00, as the code would see it.\<close>

definition officeZeroRegistry :: registry where
  "officeZeroRegistry =
     [(''1100'', \<lparr>finanzamtsnummer = ''00'', verfahren = ''BERLIN_A'', bundesland = ''Berlin''\<rparr>)]"

section \<open>The helper module (preset-validation.helper.ts)\<close>

text \<open>\<^verbatim>\<open>s.trim()\<close> and \<^verbatim>\<open>s.replace(/\s/g, '')\<close>\<close>

definition trim :: "string \<Rightarrow> string" where
  "trim s = rev (dropWhile isSpace (rev (dropWhile isSpace s)))"

definition removeWhitespace :: "string \<Rightarrow> string" where
  "removeWhitespace s = filter (\<lambda>c. \<not> isSpace c) s"

text \<open>
  \<^verbatim>\<open>s.toUpperCase()\<close>, character by character. The letters a to z become A to Z. The
  sharp s (223) becomes the two characters SS. The other lower-case letters of the
  Latin-1 supplement (224 to 254 without the division sign 247) move down by 32, as the
  two tables list them. Every
  other character stays, with two exceptions that the 8-bit range cannot express: the
  micro sign (181) and the y with diaeresis (255) have upper-case forms beyond 255 (924
  and 376). They stay as they are here; the character and its upper-case form are both a
  single code unit that is no letter A to Z and no digit, which is all the validators
  ask of an upper-cased character.
\<close>

definition lowerLetters :: string where
  "lowerLetters = ''abcdefghijklmnopqrstuvwxyz'' @ [
      CHR 0xE0, CHR 0xE1, CHR 0xE2, CHR 0xE3, CHR 0xE4, CHR 0xE5, CHR 0xE6, CHR 0xE7,
      CHR 0xE8, CHR 0xE9, CHR 0xEA, CHR 0xEB, CHR 0xEC, CHR 0xED, CHR 0xEE, CHR 0xEF,
      CHR 0xF0, CHR 0xF1, CHR 0xF2, CHR 0xF3, CHR 0xF4, CHR 0xF5, CHR 0xF6, CHR 0xF8,
      CHR 0xF9, CHR 0xFA, CHR 0xFB, CHR 0xFC, CHR 0xFD, CHR 0xFE]"

definition upperLetters :: string where
  "upperLetters = ''ABCDEFGHIJKLMNOPQRSTUVWXYZ'' @ [
      CHR 0xC0, CHR 0xC1, CHR 0xC2, CHR 0xC3, CHR 0xC4, CHR 0xC5, CHR 0xC6, CHR 0xC7,
      CHR 0xC8, CHR 0xC9, CHR 0xCA, CHR 0xCB, CHR 0xCC, CHR 0xCD, CHR 0xCE, CHR 0xCF,
      CHR 0xD0, CHR 0xD1, CHR 0xD2, CHR 0xD3, CHR 0xD4, CHR 0xD5, CHR 0xD6, CHR 0xD8,
      CHR 0xD9, CHR 0xDA, CHR 0xDB, CHR 0xDC, CHR 0xDD, CHR 0xDE]"

definition toUpper :: "char \<Rightarrow> string" where
  "toUpper c =
     (case map_of (zip lowerLetters upperLetters) c of
        Some u \<Rightarrow> [u]
      | None \<Rightarrow> (if c = CHR 0xDF then ''SS'' else [c]))"

definition toUpperCase :: "string \<Rightarrow> string" where
  "toUpperCase s = concat (map toUpper s)"

subsection \<open>Tax ID\<close>

text \<open>One pass of the loop of \<^verbatim>\<open>calculateTaxIdCheckDigit\<close> (\<open>base = 10\<close>, \<open>modulus = 11\<close>).\<close>

definition taxIdStep :: "string \<Rightarrow> nat option \<Rightarrow> nat \<Rightarrow> nat option" where
  "taxIdStep taxIdDigits product i =
     (case product of
        None \<Rightarrow> None
      | Some p \<Rightarrow>
          (case parseIntCharAt taxIdDigits i of
             None \<Rightarrow> None
           | Some digit \<Rightarrow>
               (let sum0 = (digit + p) mod 10;
                    sum1 = (if sum0 = 0 then 10 else sum0)
                in Some ((2 * sum1) mod 11))))"

definition calculateTaxIdCheckDigit :: "string \<Rightarrow> nat option" where
  "calculateTaxIdCheckDigit taxIdDigits =
     map_option (\<lambda>product. let checkDigit = 11 - product
                           in if checkDigit = 10 then 0 else checkDigit)
       (foldl (taxIdStep taxIdDigits) (Some 10) [0..<length taxIdDigits])"

definition validateGermanTaxId :: "string \<Rightarrow> bool" where
  "validateGermanTaxId taxId =
     (let cleanedTaxId = removeWhitespace (trim taxId)
      in if \<not> (length cleanedTaxId = 11 \<and> list_all isDigit cleanedTaxId) then False
         else let mainDigits = substring 0 10 cleanedTaxId;
                  providedCheckDigit = parseIntCharAt cleanedTaxId 10;
                  calculatedCheckDigit = calculateTaxIdCheckDigit mainDigits
              in numEq calculatedCheckDigit providedCheckDigit)"

subsection \<open>IBAN\<close>

text \<open>
  The list \<^verbatim>\<open>countryCodes\<close> of \<^verbatim>\<open>country-codes.json\<close> is not part of the sources at
  hand; it is a parameter of the two validators that read it.
\<close>

text \<open>\<^verbatim>\<open>/^[A-Z]{2}[0-9]{2}[A-Z0-9]+$/.test(s)\<close>\<close>

definition matchesIbanPattern :: "string \<Rightarrow> bool" where
  "matchesIbanPattern s =
     (length s \<ge> 5 \<and> list_all isUpper (take 2 s) \<and> list_all isDigit (take 2 (drop 2 s))
      \<and> list_all (\<lambda>c. isUpper c \<or> isDigit c) (drop 4 s))"

text \<open>\<^verbatim>\<open>n.toString()\<close> for a number that is a natural number.\<close>

definition digitChar :: "nat \<Rightarrow> char" where
  "digitChar d = ''0123456789'' ! d"

function natToString :: "nat \<Rightarrow> string" where
  "natToString n =
     (if n < 10 then [digitChar n] else natToString (n div 10) @ [digitChar (n mod 10)])"
  by pat_completeness auto
termination
  by (relation "measure id") auto

declare natToString.simps [simp del]

text \<open>The loop that builds \<^verbatim>\<open>numericString\<close>: a letter becomes the decimal text of its
  character code minus 55, any other character stays.\<close>

fun lettersToNumbers :: "string \<Rightarrow> string" where
  "lettersToNumbers [] = []"
| "lettersToNumbers (c # cs) =
     (if isUpper c then natToString ((of_char c :: nat) - 55) @ lettersToNumbers cs
      else c # lettersToNumbers cs)"

definition mod97Step :: "string \<Rightarrow> nat option \<Rightarrow> nat \<Rightarrow> nat option" where
  "mod97Step numericString remainder i =
     (case remainder of
        None \<Rightarrow> None
      | Some r \<Rightarrow>
          (case parseIntCharAt numericString i of
             None \<Rightarrow> None
           | Some d \<Rightarrow> Some ((r * 10 + d) mod 97)))"

definition validateIBAN :: "string list \<Rightarrow> string \<Rightarrow> bool" where
  "validateIBAN countryCodes iban =
     (let cleaned = toUpperCase (removeWhitespace (trim iban))
      in if length cleaned < 15 \<or> length cleaned > 34 then False
         else if \<not> matchesIbanPattern cleaned then False
         else let countryCode = substring 0 2 cleaned
              in if countryCode \<notin> set countryCodes then False
                 else let rearranged = drop 4 cleaned @ take 4 cleaned;
                          numericString = lettersToNumbers rearranged;
                          remainder = foldl (mod97Step numericString) (Some 0)
                                        [0..<length numericString]
                      in numEq remainder (Some 1))"

subsection \<open>BIC\<close>

text \<open>\<^verbatim>\<open>/^[A-Z]{4}[A-Z]{2}[A-Z0-9]{2}$/\<close> and \<^verbatim>\<open>/^[A-Z]{4}[A-Z]{2}[A-Z0-9]{2}[A-Z0-9]{3}$/\<close>\<close>

definition matchesBic8 :: "string \<Rightarrow> bool" where
  "matchesBic8 s =
     (length s = 8 \<and> list_all isUpper (take 6 s)
      \<and> list_all (\<lambda>c. isUpper c \<or> isDigit c) (drop 6 s))"

definition matchesBic11 :: "string \<Rightarrow> bool" where
  "matchesBic11 s =
     (length s = 11 \<and> list_all isUpper (take 6 s)
      \<and> list_all (\<lambda>c. isUpper c \<or> isDigit c) (drop 6 s))"

definition validateBIC :: "string list \<Rightarrow> string \<Rightarrow> bool" where
  "validateBIC countryCodes bic =
     (let cleaned = toUpperCase (removeWhitespace (trim bic))
      in if length cleaned \<noteq> 8 \<and> length cleaned \<noteq> 11 then False
         else if (if length cleaned = 8 then \<not> matchesBic8 cleaned
                  else \<not> matchesBic11 cleaned) then False
         else let countryCode = substring 4 6 cleaned
              in if countryCode \<notin> set countryCodes then False else True)"

section \<open>Notions of the specification\<close>

text \<open>
  The definitions of this section are not code of the repository. They write down, in
  the specification's words, what the code is compared with.
\<close>

text \<open>The candidate set as the specification words it: the registry codes whose first
  two characters (the state number) are the first two digits of the input.\<close>

definition statePrefixBufas :: "registry \<Rightarrow> string \<Rightarrow> string list" where
  "statePrefixBufas reg n =
     filter (\<lambda>code. substring 0 2 code = substring 0 2 n) (map fst reg)"

text \<open>The 10-digit old-format projection of a 13-digit number: the state number
  (digits 1 and 2) and the filler (digit 5) are dropped.\<close>

definition oldFormatProjection :: "string \<Rightarrow> string" where
  "oldFormatProjection n = substring 2 4 n @ substring 5 13 n"

text \<open>A string with characters of a given kind inserted at any positions.\<close>

inductive inserted :: "(char \<Rightarrow> bool) \<Rightarrow> string \<Rightarrow> string \<Rightarrow> bool" for P where
  inserted_Nil: "inserted P [] []"
| inserted_keep: "inserted P xs ys \<Longrightarrow> inserted P (c # xs) (c # ys)"
| inserted_add: "P c \<Longrightarrow> inserted P xs ys \<Longrightarrow> inserted P xs (c # ys)"

definition isFormatting :: "char \<Rightarrow> bool" where
  "isFormatting c = (c = CHR '' '' \<or> c = CHR ''/'' \<or> c = CHR ''-'')"

definition isBlank :: "char \<Rightarrow> bool" where
  "isBlank c = (c = CHR '' '')"

text \<open>The sum of the decimal digits of a number.\<close>

function digitSum :: "nat \<Rightarrow> nat" where
  "digitSum n = (if n < 10 then n else n mod 10 + digitSum (n div 10))"
  by pat_completeness auto
termination
  by (relation "measure id") auto

declare digitSum.simps [simp del]

text \<open>The "standard" procedure on the twelve body digits: position 0, 2, 4, ... times 1,
  position 1, 3, 5, ... times 2, a product above 9 replaced by its digit sum, and the
  check digit \<open>(10 - (sum mod 10)) mod 10\<close>.\<close>

definition standardTerm :: "nat \<Rightarrow> nat \<Rightarrow> nat" where
  "standardTerm i d = (let p = d * (if even i then 1 else 2) in if p > 9 then digitSum p else p)"

definition standardCheckDigit :: "nat list \<Rightarrow> nat" where
  "standardCheckDigit body =
     (10 - (sum_list (map (\<lambda>i. standardTerm i (body ! i)) [0..<12]) mod 10)) mod 10"

text \<open>The tax-ID check digit: the product starts at 10; each digit gives
  \<open>sum = (digit + product) mod 10\<close>, a zero sum counts as 10, and
  \<open>product = (2 * sum) mod 11\<close>; the check digit is \<open>(11 - product) mod 11\<close>, with 10
  mapped to 0.\<close>

definition specTaxIdStep :: "nat \<Rightarrow> nat \<Rightarrow> nat" where
  "specTaxIdStep product digit =
     (let sm = (digit + product) mod 10 in (2 * (if sm = 0 then 10 else sm)) mod 11)"

definition specTaxIdProduct :: "nat list \<Rightarrow> nat" where
  "specTaxIdProduct ds = foldl specTaxIdStep 10 ds"

definition specTaxIdCheckDigit :: "nat list \<Rightarrow> nat" where
  "specTaxIdCheckDigit ds =
     (let c = (11 - specTaxIdProduct ds) mod 11 in if c = 10 then 0 else c)"

text \<open>The IBAN rules: two letters, two digits, alphanumerics for the remainder; a letter
  stands for the two digits of its number (A = 10, ..., Z = 35); the digit sequence is
  reduced by \<open>remainder = (remainder * 10 + digit) mod 97\<close>.\<close>

fun specIbanFormat :: "string \<Rightarrow> bool" where
  "specIbanFormat (l1 # l2 # d1 # d2 # rest) =
     (isUpper l1 \<and> isUpper l2 \<and> isDigit d1 \<and> isDigit d2
      \<and> list_all (\<lambda>c. isUpper c \<or> isDigit c) rest)"
| "specIbanFormat _ = False"

definition specLetterNumber :: "char \<Rightarrow> nat" where
  "specLetterNumber c = 10 + ((of_char c :: nat) - (of_char (CHR ''A'') :: nat))"

definition specCharDigits :: "char \<Rightarrow> nat list" where
  "specCharDigits c =
     (if isUpper c then [specLetterNumber c div 10, specLetterNumber c mod 10]
      else [digitValue c])"

definition specMod97Step :: "nat \<Rightarrow> nat \<Rightarrow> nat" where
  "specMod97Step remainder digit = (remainder * 10 + digit) mod 97"

definition specMod97 :: "nat list \<Rightarrow> nat" where
  "specMod97 ds = foldl specMod97Step 0 ds"

definition specValidIBAN :: "string list \<Rightarrow> string \<Rightarrow> bool" where
  "specValidIBAN countryCodes s =
     (let c = toUpperCase (removeWhitespace s)
      in 15 \<le> length c \<and> length c \<le> 34 \<and> specIbanFormat c
         \<and> take 2 c \<in> set countryCodes
         \<and> specMod97 (concat (map specCharDigits (drop 4 c @ take 4 c))) = 1)"

text \<open>What a caller sees of an outcome apart from the canonical form.\<close>

definition verdict :: "outcome \<Rightarrow> bool \<times> string option \<times> string option \<times> reason_msg option" where
  "verdict r = (valid r, bufa r, stateName r, reason r)"

text \<open>Two of the country codes that the repository's tests show to be in the list.\<close>

definition sampleCountryCodes :: "string list" where
  "sampleCountryCodes = [''DE'', ''GB'']"

section \<open>Evaluation lemmas\<close>

lemmas js_defs = isDigit_def isSpace_def digitValue_def substring_def substringFrom_def
  jsNumberAt_def removeNonDigits_def allZeros_def

lemmas checksum_defs = validatePruefziffer_def pruefzifferBayern_def
  computeWeightedCheckDigit_def addTerm_def numEq_def bayernTerm_def bayernBase_def
  BERLIN_A_MULTIPLIERS_def BERLIN_B_MULTIPLIERS_def NRW_MULTIPLIERS_def

lemma upt_12: "[0..<12] = [0, 1, 2, 3, 4, 5, 6, 7, 8, 9, 10, 11]"
  by (simp add: upt_rec)

section \<open>The synthesized form of an 11-digit input\<close>

text \<open>
  Claim C1. The normalizer is to synthesize a string of exactly 13 digits for every
  input of 10, 11 or 12 digits. For an 11-digit input \<^verbatim>\<open>normalizeTo13Digits\<close> keeps
  all eleven digits and adds the two state digits and the filler: the result has 14
  characters, in the ordinary branch and in the NRW branch. Evaluated here at the
  input 12345678901 with the codes 1116 and 0511.
\<close>

theorem normalizeTo13Digits_eleven_digits_gives_14:
  "normalizeTo13Digits ''12345678901'' ''1116'' = Some ''11120345678901''
   \<and> normalizeTo13Digits ''12345678901'' ''0511'' = Some ''05120345678901''
   \<and> length ''11120345678901'' = 14 \<and> length ''05120345678901'' = 14"
  by (simp add: normalizeTo13Digits_def js_defs)

section \<open>All-zero inputs\<close>

lemma validatePruefziffer_zeros13: "validatePruefziffer ''0000000000000'' info"
  by (simp add: checksum_defs upt_12 js_defs)

text \<open>
  Claim C2. An all-zero digit string of length 10, 11, 12 or 13 is to be rejected with
  the reason "all zeros". \<^verbatim>\<open>validate13DigitFormat\<close> has no such test: thirteen zeros
  are looked up under the code 0000 and, when the registry has that code, accepted, since
  every checksum procedure computes the check digit 0 for them. Whatever the registry is,
  the reason is never "all zeros".
\<close>

theorem validateSteuernummer_zeros13:
  "validateSteuernummer reg ''0000000000000'' =
     (case BUFA_MAP reg ''0000'' of
        None \<Rightarrow> rejected UnknownBufaOrFinanzamt
      | Some info \<Rightarrow> accepted ''0000000000000'' ''0000'' info)"
  using validatePruefziffer_zeros13
  by (simp add: validateSteuernummer_def normalizeSteuernummer_def validate13DigitFormat_def
      js_defs Let_def split: option.splits)

text \<open>The shorter all-zero inputs are rejected with that reason.\<close>

lemma validateSteuernummer_zeros_10_11_12:
  "validateSteuernummer reg ''0000000000'' = rejected AllZeros"
  "validateSteuernummer reg ''00000000000'' = rejected AllZeros"
  "validateSteuernummer reg ''000000000000'' = rejected AllZeros"
  by (simp_all add: validateSteuernummer_def normalizeSteuernummer_def
      validate10DigitFormat_def validate11DigitFormat_def validate12DigitFormat_def js_defs)

section \<open>Basic facts\<close>

lemma normalizeSteuernummer_digits:
  "list_all isDigit n \<Longrightarrow> length n \<in> {10, 11, 12, 13} \<Longrightarrow> normalizeSteuernummer n = n"
  by (auto simp: normalizeSteuernummer_def removeNonDigits_def list_all_iff filter_id_conv)

lemma verdict_accepted:
  "verdict (accepted c code info) = (True, Some code, Some (bundesland info), None)"
  by (simp add: verdict_def accepted_def)

lemma verdict_rejected: "verdict (rejected r) = (False, None, None, Some r)"
  by (simp add: verdict_def rejected_def)

lemma sample_lookup:
  "BUFA_MAP sampleRegistry ''1116'' =
     Some \<lparr>finanzamtsnummer = ''16'', verfahren = ''BERLIN_A'', bundesland = ''Berlin''\<rparr>"
  by (simp add: BUFA_MAP_def sampleRegistry_def)

lemma sample_check_ok:
  "validatePruefziffer ''1116012345678''
     \<lparr>finanzamtsnummer = ''16'', verfahren = ''BERLIN_A'', bundesland = ''Berlin''\<rparr>"
  by (simp add: checksum_defs upt_12 js_defs)

lemma sample_check_bad:
  "\<not> validatePruefziffer ''1116012345679''
     \<lparr>finanzamtsnummer = ''16'', verfahren = ''BERLIN_A'', bundesland = ''Berlin''\<rparr>"
  by (simp add: checksum_defs upt_12 js_defs)

section \<open>Thirteen-digit input\<close>

text \<open>
  Claim C9. A 13-digit input whose code (digits 1 to 4) is in the registry is rejected
  with the reason "Invalid Pruefziffer" and with the code and the state name filled in
  when the checksum fails, and accepted with the input itself as canonical form, the
  code and the state name when the checksum passes.
\<close>

theorem validate13_outcome:
  assumes "length n = 13" and "list_all isDigit n"
    and "BUFA_MAP reg (substring 0 2 n @ substring 2 4 n) = Some info"
  shows "validateSteuernummer reg n =
     (if validatePruefziffer n info
      then \<lparr>valid = True, normalized = Some n,
            bufa = Some (substring 0 2 n @ substring 2 4 n),
            stateName = Some (bundesland info), reason = None\<rparr>
      else \<lparr>valid = False, normalized = None,
            bufa = Some (substring 0 2 n @ substring 2 4 n),
            stateName = Some (bundesland info), reason = Some InvalidPruefziffer\<rparr>)"
proof -
  have "normalizeSteuernummer n = n"
    using assms by (simp add: normalizeSteuernummer_digits)
  moreover have "n \<noteq> []" using assms by auto
  ultimately have "validateSteuernummer reg n = validate13DigitFormat reg n"
    using assms(1) by (simp add: validateSteuernummer_def)
  then show ?thesis
    using assms(3) by (simp add: validate13DigitFormat_def accepted_def Let_def)
qed

theorem validate13_outcome_witness:
  "validateSteuernummer sampleRegistry ''1116012345678'' =
     \<lparr>valid = True, normalized = Some ''1116012345678'', bufa = Some ''1116'',
      stateName = Some ''Berlin'', reason = None\<rparr>
   \<and> validateSteuernummer sampleRegistry ''1116012345679'' =
     \<lparr>valid = False, normalized = None, bufa = Some ''1116'',
      stateName = Some ''Berlin'', reason = Some InvalidPruefziffer\<rparr>"
proof -
  let ?i = "\<lparr>finanzamtsnummer = ''16'', verfahren = ''BERLIN_A'', bundesland = ''Berlin''\<rparr>"
  have a: "length ''1116012345678'' = 13" "list_all isDigit ''1116012345678''"
    "BUFA_MAP sampleRegistry
       (substring 0 2 ''1116012345678'' @ substring 2 4 ''1116012345678'') = Some ?i"
    using sample_lookup by (simp_all add: js_defs)
  have b: "length ''1116012345679'' = 13" "list_all isDigit ''1116012345679''"
    "BUFA_MAP sampleRegistry
       (substring 0 2 ''1116012345679'' @ substring 2 4 ''1116012345679'') = Some ?i"
    using sample_lookup by (simp_all add: js_defs)
  show ?thesis
    using validate13_outcome[OF a] validate13_outcome[OF b] sample_check_ok sample_check_bad
    by (simp add: js_defs)
qed

section \<open>The candidate codes of a 10- or 11-digit input\<close>

lemma findPossibleBufas_set:
  "set (findPossibleBufas reg f) =
     {code. \<exists>info. (code, info) \<in> set reg \<and> finanzamtsnummer info = f}"
  by (induction reg f rule: findPossibleBufas.induct) auto

lemma findPossibleBufas_lookup:
  "code \<in> set (findPossibleBufas reg f) \<Longrightarrow> \<exists>info. BUFA_MAP reg code = Some info"
  by (induction reg f rule: findPossibleBufas.induct) (auto simp: BUFA_MAP_def split: if_splits)

lemma findPossibleBufas_codes:
  "codesWellFormed reg \<Longrightarrow> \<forall>code \<in> set (findPossibleBufas reg f). length code = 4"
  by (auto simp: findPossibleBufas_set codesWellFormed_def list_all_iff)

text \<open>
  Claim C3, as stated: the codes tried for a 10- or 11-digit input are the registry codes
  whose state-number prefix is the input's first two digits. The code compares the
  first two digits with the field \<^verbatim>\<open>finanzamtsnummer\<close> of each entry instead. With the
  registry entry 1116 the input 1612345678 is tried, and accepted, under the code 1116,
  whose state prefix is 11 and not 16.
\<close>

theorem candidates_state_prefix_counterexample:
  "set (findPossibleBufas sampleRegistry (substring 0 2 ''1612345678''))
     \<noteq> set (statePrefixBufas sampleRegistry ''1612345678'')
   \<and> bufa (validateSteuernummer sampleRegistry ''1612345678'') = Some ''1116''
   \<and> ''1116'' \<notin> set (statePrefixBufas sampleRegistry ''1612345678'')"
  using sample_check_ok
  by (simp add: sampleRegistry_def statePrefixBufas_def js_defs validateSteuernummer_def
      normalizeSteuernummer_def validate10DigitFormat_def normalizeTo13Digits_def
      BUFA_MAP_def accepted_def)

text \<open>
  Claim C3, amended: for an input of 10 or 11 digits that is not all zeros, the validator
  runs the candidate loop over \<^verbatim>\<open>findPossibleBufas\<close> of the first two digits, and these
  candidates are exactly the codes of the registry entries whose field
  \<^verbatim>\<open>finanzamtsnummer\<close> equals the input's first two digits.
\<close>

theorem candidates_by_office_number:
  assumes "list_all isDigit n" and "length n = 10 \<or> length n = 11" and "\<not> allZeros n"
  shows "validateSteuernummer reg n =
           (if findPossibleBufas reg (substring 0 2 n) = [] then rejected UnknownFinanzamt
            else (case tryBufas reg n (findPossibleBufas reg (substring 0 2 n)) of
                    Some r \<Rightarrow> r
                  | None \<Rightarrow> rejected InvalidForAllBufas))
         \<and> set (findPossibleBufas reg (substring 0 2 n)) =
             {code. \<exists>info. (code, info) \<in> set reg
                           \<and> finanzamtsnummer info = substring 0 2 n}"
proof -
  have "normalizeSteuernummer n = n"
    using assms by (auto simp: normalizeSteuernummer_digits)
  moreover have "n \<noteq> []" using assms by auto
  ultimately have "validateSteuernummer reg n =
      (if length n = 10 then validate10DigitFormat reg n else validate11DigitFormat reg n)"
    using assms(2) by (auto simp: validateSteuernummer_def)
  then show ?thesis
    using assms(3)
    by (auto simp: validate10DigitFormat_def validate11DigitFormat_def Let_def
        findPossibleBufas_set)
qed

theorem candidates_by_office_number_witness:
  "list_all isDigit ''1612345678''
   \<and> (length ''1612345678'' = 10 \<or> length ''1612345678'' = 11)
   \<and> \<not> allZeros ''1612345678''
   \<and> set (findPossibleBufas sampleRegistry (substring 0 2 ''1612345678'')) =
       {code. \<exists>info. (code, info) \<in> set sampleRegistry
                     \<and> finanzamtsnummer info = substring 0 2 ''1612345678''}
   \<and> findPossibleBufas sampleRegistry (substring 0 2 ''1612345678'') = [''1116'']"
proof -
  have h: "list_all isDigit ''1612345678''"
    "length ''1612345678'' = 10 \<or> length ''1612345678'' = 11" "\<not> allZeros ''1612345678''"
    by (simp_all add: js_defs)
  have "findPossibleBufas sampleRegistry (substring 0 2 ''1612345678'') = [''1116'']"
    by (simp add: sampleRegistry_def js_defs)
  with h candidates_by_office_number[OF h, of sampleRegistry] show ?thesis by blast
qed

section \<open>The last digit of an 11-digit input\<close>

lemma jsNumberAt_take: "i < k \<Longrightarrow> jsNumberAt (take k s) i = jsNumberAt s i"
  by (simp add: jsNumberAt_def)

lemma foldl_addTerm_cong:
  "(\<And>i. i \<in> set ixs \<Longrightarrow> jsNumberAt s i = jsNumberAt t i) \<Longrightarrow>
   foldl (addTerm s f) a ixs = foldl (addTerm t f) a ixs"
  by (rule foldl_cong) (auto simp: addTerm_def split: option.splits)

lemma pruefzifferBayern_take13: "pruefzifferBayern (take 13 s) = pruefzifferBayern s"
  unfolding pruefzifferBayern_def
  by (rule arg_cong[where f="map_option _"], rule foldl_addTerm_cong) (simp add: jsNumberAt_take)

text \<open>The checksum engine reads the characters 0 to 12 only.\<close>

lemma validatePruefziffer_take13:
  "validatePruefziffer (take 13 s) info = validatePruefziffer s info"
  by (simp add: validatePruefziffer_def pruefzifferBayern_take13 jsNumberAt_take substring_def)

lemma list11:
  assumes "length d = 11"
  obtains a0 a1 a2 a3 a4 a5 a6 a7 a8 a9 a10
  where "d = [a0, a1, a2, a3, a4, a5, a6, a7, a8, a9, a10]"
  using assms by (auto simp: numeral_eq_Suc length_Suc_conv)

text \<open>For eleven digits both branches give the same string of 14 characters (when the
  code has at least two).\<close>

lemma normalizeTo13Digits_11:
  assumes "length d = 11" and "list_all isDigit d"
  shows "normalizeTo13Digits d code = Some (substring 0 2 code @ take 2 d @ ''0'' @ drop 2 d)"
proof -
  have f: "removeNonDigits d = d"
    using assms(2) by (simp add: removeNonDigits_def list_all_iff filter_id_conv)
  from assms(1) obtain a0 a1 a2 a3 a4 a5 a6 a7 a8 a9 a10
    where d: "d = [a0, a1, a2, a3, a4, a5, a6, a7, a8, a9, a10]" by (rule list11)
  show ?thesis
    unfolding normalizeTo13Digits_def f Let_def
    by (simp add: d substring_def substringFrom_def)
qed

lemma normalizeTo13Digits_11_length:
  assumes "length d = 11" and "list_all isDigit d" and "length code = 4"
  shows "map_option length (normalizeTo13Digits d code) = Some 14"
  using assms by (simp add: normalizeTo13Digits_11 substring_def)

lemma check_11_last_digit:
  assumes "length d = 11" and "list_all isDigit d" and "isDigit x" and "length code = 4"
  shows "\<exists>c c'. normalizeTo13Digits d code = Some c \<and> c \<noteq> []
            \<and> normalizeTo13Digits (d[10 := x]) code = Some c' \<and> c' \<noteq> []
            \<and> validatePruefziffer c' info = validatePruefziffer c info"
proof -
  from assms(1) obtain a0 a1 a2 a3 a4 a5 a6 a7 a8 a9 a10
    where d: "d = [a0, a1, a2, a3, a4, a5, a6, a7, a8, a9, a10]" by (rule list11)
  let ?c = "substring 0 2 code @ take 2 d @ ''0'' @ drop 2 d"
  let ?c' = "substring 0 2 code @ take 2 (d[10 := x]) @ ''0'' @ drop 2 (d[10 := x])"
  have n: "normalizeTo13Digits d code = Some ?c"
    using assms(1,2) by (rule normalizeTo13Digits_11)
  have "list_all isDigit (d[10 := x])"
    using assms(2,3) by (simp add: d)
  then have n': "normalizeTo13Digits (d[10 := x]) code = Some ?c'"
    using assms(1) by (intro normalizeTo13Digits_11) simp_all
  have "take 13 ?c' = take 13 ?c"
    using assms(4) by (simp add: d substring_def)
  then have "validatePruefziffer ?c' info = validatePruefziffer ?c info"
    by (metis validatePruefziffer_take13)
  with n n' show ?thesis by simp
qed

lemma tryBufas_last_digit:
  assumes "length d = 11" "list_all isDigit d" "isDigit x"
    and "\<forall>code \<in> set cs. length code = 4"
  shows "map_option verdict (tryBufas reg (d[10 := x]) cs)
         = map_option verdict (tryBufas reg d cs)"
  using assms(4)
proof (induction cs)
  case Nil
  then show ?case by simp
next
  case (Cons code cs)
  have l: "length code = 4" using Cons.prems by simp
  have ih: "map_option verdict (tryBufas reg (d[10 := x]) cs)
            = map_option verdict (tryBufas reg d cs)"
    using Cons by simp
  show ?case
  proof (cases "BUFA_MAP reg code")
    case None
    from check_11_last_digit[OF assms(1,2,3) l] obtain c c' where
      "normalizeTo13Digits d code = Some c" "c \<noteq> []"
      "normalizeTo13Digits (d[10 := x]) code = Some c'" "c' \<noteq> []" by blast
    with None ih show ?thesis by simp
  next
    case (Some info)
    from check_11_last_digit[OF assms(1,2,3) l, of info] obtain c c' where
      "normalizeTo13Digits d code = Some c" "c \<noteq> []"
      "normalizeTo13Digits (d[10 := x]) code = Some c'" "c' \<noteq> []"
      "validatePruefziffer c' info = validatePruefziffer c info" by blast
    with Some ih show ?thesis by (simp add: verdict_accepted)
  qed
qed

lemma validate11_last_digit:
  assumes "length d = 11" "list_all isDigit d" "isDigit x" "codesWellFormed reg"
    and "allZeros (d[10 := x]) = allZeros d"
  shows "verdict (validate11DigitFormat reg (d[10 := x])) = verdict (validate11DigitFormat reg d)"
proof -
  from assms(1) obtain a0 a1 a2 a3 a4 a5 a6 a7 a8 a9 a10
    where d: "d = [a0, a1, a2, a3, a4, a5, a6, a7, a8, a9, a10]" by (rule list11)
  have s: "substring 0 2 (d[10 := x]) = substring 0 2 d"
    by (simp add: d substring_def)
  let ?cs = "findPossibleBufas reg (substring 0 2 d)"
  have "map_option verdict (tryBufas reg (d[10 := x]) ?cs)
        = map_option verdict (tryBufas reg d ?cs)"
    using assms(1,2,3) findPossibleBufas_codes[OF assms(4)] by (rule tryBufas_last_digit)
  then show ?thesis
    using assms(5)
    by (auto simp: validate11DigitFormat_def s Let_def verdict_rejected split: option.splits)
qed

text \<open>
  Claim C5, as stated: replacing the 11th digit of an 11-digit input never changes the
  \<^verbatim>\<open>valid\<close> flag or the reason. The all-zeros test reads the 11th digit: eleven zeros
  are rejected as all zeros, and 00000000001 is rejected for another reason.
\<close>

theorem last_digit_all_zeros_counterexample:
  "reason (validateSteuernummer sampleRegistry (''00000000000''[10 := CHR ''1'']))
     \<noteq> reason (validateSteuernummer sampleRegistry ''00000000000'')
   \<and> reason (validateSteuernummer sampleRegistry ''00000000000'') = Some AllZeros
   \<and> reason (validateSteuernummer sampleRegistry (''00000000000''[10 := CHR ''1'']))
       = Some UnknownFinanzamt"
  by (simp add: validateSteuernummer_def normalizeSteuernummer_def validate11DigitFormat_def
      js_defs sampleRegistry_def rejected_def)

text \<open>With an office number 00 in the registry the flag changes as well.\<close>

lemma last_digit_all_zeros_flag:
  "valid (validateSteuernummer officeZeroRegistry ''00000000001'')
   \<and> \<not> valid (validateSteuernummer officeZeroRegistry ''00000000000'')"
  by (simp add: validateSteuernummer_def normalizeSteuernummer_def validate11DigitFormat_def
      normalizeTo13Digits_def js_defs officeZeroRegistry_def rejected_def accepted_def
      BUFA_MAP_def checksum_defs upt_12)

text \<open>
  Claim C5, amended: for an 11-digit input \<open>d\<close>, a digit \<open>x\<close> and a registry whose codes
  have four characters, replacing the 11th digit of \<open>d\<close> by \<open>x\<close> leaves the \<^verbatim>\<open>valid\<close>
  flag and the reason unchanged, provided the replacement does not turn an input that is
  all zeros into one that is not, or the reverse.
\<close>

theorem last_digit_of_11_ignored:
  assumes "length d = 11" and "list_all isDigit d" and "isDigit x" and "codesWellFormed reg"
    and "allZeros (d[10 := x]) = allZeros d"
  shows "valid (validateSteuernummer reg (d[10 := x])) = valid (validateSteuernummer reg d)
       \<and> reason (validateSteuernummer reg (d[10 := x])) = reason (validateSteuernummer reg d)"
proof -
  have "list_all isDigit (d[10 := x])"
    using assms(2,3) by (auto simp: list_all_iff dest: set_update_subset_insert[THEN subsetD])
  then have "normalizeSteuernummer (d[10 := x]) = d[10 := x]"
    using assms(1) by (simp add: normalizeSteuernummer_digits)
  moreover have "normalizeSteuernummer d = d"
    using assms(1,2) by (simp add: normalizeSteuernummer_digits)
  moreover have "d \<noteq> []" "d[10 := x] \<noteq> []" using assms(1) by auto
  ultimately have
    "validateSteuernummer reg (d[10 := x]) = validate11DigitFormat reg (d[10 := x])"
    "validateSteuernummer reg d = validate11DigitFormat reg d"
    using assms(1) by (simp_all add: validateSteuernummer_def)
  with validate11_last_digit[OF assms] show ?thesis
    by (simp add: verdict_def)
qed

theorem last_digit_of_11_ignored_witness:
  "length ''16123456780'' = 11 \<and> list_all isDigit ''16123456780'' \<and> isDigit (CHR ''5'')
   \<and> codesWellFormed sampleRegistry
   \<and> allZeros (''16123456780''[10 := CHR ''5'']) = allZeros ''16123456780''
   \<and> valid (validateSteuernummer sampleRegistry ''16123456785'')
       = valid (validateSteuernummer sampleRegistry ''16123456780'')
   \<and> reason (validateSteuernummer sampleRegistry ''16123456785'')
       = reason (validateSteuernummer sampleRegistry ''16123456780'')"
proof -
  have h: "length ''16123456780'' = 11" "list_all isDigit ''16123456780''"
    "isDigit (CHR ''5'')" "codesWellFormed sampleRegistry"
    "allZeros (''16123456780''[10 := CHR ''5'']) = allZeros ''16123456780''"
    by (simp_all add: js_defs codesWellFormed_def sampleRegistry_def)
  from last_digit_of_11_ignored[OF h] h show ?thesis by simp
qed

section \<open>Round trip through the old 10-digit format\<close>

lemma list13:
  assumes "length n = 13"
  obtains a0 a1 a2 a3 a4 a5 a6 a7 a8 a9 a10 a11 a12
  where "n = [a0, a1, a2, a3, a4, a5, a6, a7, a8, a9, a10, a11, a12]"
  using assms by (auto simp: numeral_eq_Suc length_Suc_conv)

lemma validateSteuernummer_13:
  assumes "length n = 13" and "list_all isDigit n"
  shows "validateSteuernummer reg n = validate13DigitFormat reg n"
proof -
  have "normalizeSteuernummer n = n"
    using assms by (simp add: normalizeSteuernummer_digits)
  moreover have "n \<noteq> []" using assms by auto
  ultimately show ?thesis
    using assms(1) by (simp add: validateSteuernummer_def)
qed

lemma validateSteuernummer_10:
  assumes "length p = 10" and "list_all isDigit p"
  shows "validateSteuernummer reg p = validate10DigitFormat reg p"
proof -
  have "normalizeSteuernummer p = p"
    using assms by (simp add: normalizeSteuernummer_digits)
  moreover have "p \<noteq> []" using assms by auto
  ultimately show ?thesis
    using assms(1) by (simp add: validateSteuernummer_def)
qed

lemma validate13_valid_iff:
  "valid (validate13DigitFormat reg n) =
     (\<exists>info. BUFA_MAP reg (substring 0 2 n @ substring 2 4 n) = Some info
             \<and> validatePruefziffer n info)"
  by (auto simp: validate13DigitFormat_def Let_def rejected_def accepted_def
      split: option.splits)

lemma tryBufas_valid: "tryBufas reg p cs = Some r \<Longrightarrow> valid r"
  by (induction cs) (auto simp: accepted_def split: option.splits if_splits)

lemma tryBufas_finds:
  assumes "code \<in> set cs" and "normalizeTo13Digits p code = Some c" and "c \<noteq> []"
    and "BUFA_MAP reg code = Some info" and "validatePruefziffer c info"
  shows "\<exists>r. tryBufas reg p cs = Some r"
  using assms(1)
proof (induction cs)
  case Nil
  then show ?case by simp
next
  case (Cons a cs)
  show ?case
  proof (cases "a = code")
    case True
    then show ?thesis using assms(2-5) by simp
  next
    case False
    with Cons obtain r where "tryBufas reg p cs = Some r" by auto
    then show ?thesis by (auto split: option.splits)
  qed
qed

lemma projection_expands:
  assumes "length n = 13" and "list_all isDigit n" and "n ! 4 = CHR ''0''"
  shows "normalizeTo13Digits (oldFormatProjection n) (substring 0 2 n @ substring 2 4 n) = Some n"
    and "length (oldFormatProjection n) = 10" and "list_all isDigit (oldFormatProjection n)"
    and "substring 0 2 (oldFormatProjection n) = substring 2 4 (substring 0 2 n @ substring 2 4 n)"
proof -
  from assms(1) obtain a0 a1 a2 a3 a4 a5 a6 a7 a8 a9 a10 a11 a12
    where n: "n = [a0, a1, a2, a3, a4, a5, a6, a7, a8, a9, a10, a11, a12]" by (rule list13)
  have p: "oldFormatProjection n = [a2, a3, a5, a6, a7, a8, a9, a10, a11, a12]"
    by (simp add: n oldFormatProjection_def substring_def)
  have a4: "a4 = CHR ''0''" using assms(3) by (simp add: n)
  have dg: "list_all isDigit [a2, a3, a5, a6, a7, a8, a9, a10, a11, a12]"
    using assms(2) by (simp add: n)
  then have f: "removeNonDigits [a2, a3, a5, a6, a7, a8, a9, a10, a11, a12]
             = [a2, a3, a5, a6, a7, a8, a9, a10, a11, a12]"
    unfolding removeNonDigits_def by (simp add: list_all_iff filter_id_conv)
  show "normalizeTo13Digits (oldFormatProjection n) (substring 0 2 n @ substring 2 4 n) = Some n"
    unfolding p normalizeTo13Digits_def f Let_def
    by (simp add: n a4 substring_def substringFrom_def)
  show "length (oldFormatProjection n) = 10" by (simp add: p)
  show "list_all isDigit (oldFormatProjection n)" using dg by (simp add: p)
  show "substring 0 2 (oldFormatProjection n) = substring 2 4 (substring 0 2 n @ substring 2 4 n)"
    unfolding p by (simp add: n substring_def)
qed

lemma zero_office_check:
  "validatePruefziffer ''1100000000000''
     \<lparr>finanzamtsnummer = ''00'', verfahren = ''BERLIN_A'', bundesland = ''Berlin''\<rparr>"
  by (simp add: checksum_defs upt_12 js_defs)

text \<open>
  Claim C8, as stated: every 13-digit canonical number that validates for its region
  validates again after reduction to its 10-digit projection. The all-zeros test of
  \<^verbatim>\<open>validate10DigitFormat\<close> runs before the candidate search: with an office number
  00 in the registry, 1100000000000 is accepted and its projection 0000000000 is rejected.
\<close>

theorem old_format_round_trip_counterexample:
  "length ''1100000000000'' = 13 \<and> list_all isDigit ''1100000000000''
   \<and> ''1100000000000'' ! 4 = CHR ''0''
   \<and> officeNumbersConsistent officeZeroRegistry
   \<and> valid (validateSteuernummer officeZeroRegistry ''1100000000000'')
   \<and> \<not> valid (validateSteuernummer officeZeroRegistry (oldFormatProjection ''1100000000000''))"
  using zero_office_check
  by (simp add: validateSteuernummer_def normalizeSteuernummer_def validate13DigitFormat_def
      validate10DigitFormat_def js_defs officeZeroRegistry_def officeNumbersConsistent_def
      oldFormatProjection_def BUFA_MAP_def accepted_def rejected_def)

text \<open>
  Claim C8, amended: let \<open>n\<close> be a 13-digit number with filler digit 0 that
  \<^verbatim>\<open>validateSteuernummer\<close> accepts, in a registry whose entries carry the office number
  of their code in \<^verbatim>\<open>finanzamtsnummer\<close>, and let its 10-digit projection not be all
  zeros. Then the code of \<open>n\<close> is among the candidates of the projection, the form
  synthesized for it is \<open>n\<close> itself and passes that region's checksum, and
  \<^verbatim>\<open>validateSteuernummer\<close> accepts the projection.
\<close>

theorem old_format_round_trip:
  assumes "length n = 13" and "list_all isDigit n" and "n ! 4 = CHR ''0''"
    and "officeNumbersConsistent reg"
    and "valid (validateSteuernummer reg n)"
    and "\<not> allZeros (oldFormatProjection n)"
  shows "(\<exists>code \<in> set (findPossibleBufas reg (substring 0 2 (oldFormatProjection n))).
            \<exists>info. BUFA_MAP reg code = Some info
                  \<and> normalizeTo13Digits (oldFormatProjection n) code = Some n
                  \<and> validatePruefziffer n info)
         \<and> valid (validateSteuernummer reg (oldFormatProjection n))"
proof -
  let ?p = "oldFormatProjection n"
  let ?code = "substring 0 2 n @ substring 2 4 n"
  from assms(1,2,5) obtain info where
    info: "BUFA_MAP reg ?code = Some info" and ok: "validatePruefziffer n info"
    by (auto simp: validateSteuernummer_13 validate13_valid_iff)
  note ex = projection_expands[OF assms(1,2,3)]
  have "(?code, info) \<in> set reg"
    using info by (auto simp: BUFA_MAP_def dest: map_of_SomeD)
  then have "finanzamtsnummer info = substring 2 4 ?code"
    using assms(4) by (auto simp: officeNumbersConsistent_def list_all_iff)
  with \<open>(?code, info) \<in> set reg\<close> have mem: "?code \<in> set (findPossibleBufas reg (substring 0 2 ?p))"
    by (auto simp: findPossibleBufas_set ex(4))
  have "n \<noteq> []" using assms(1) by auto
  with tryBufas_finds[OF mem ex(1) _ info ok] obtain r where
    r: "tryBufas reg ?p (findPossibleBufas reg (substring 0 2 ?p)) = Some r" by blast
  then have "valid r" by (rule tryBufas_valid)
  moreover have "findPossibleBufas reg (substring 0 2 ?p) \<noteq> []" using mem by auto
  ultimately have "valid (validate10DigitFormat reg ?p)"
    using assms(6) r by (simp add: validate10DigitFormat_def Let_def)
  then have "valid (validateSteuernummer reg ?p)"
    by (simp add: validateSteuernummer_10[OF ex(2,3)])
  with mem info ex(1) ok show ?thesis by blast
qed

theorem old_format_round_trip_witness:
  "length ''1116012345678'' = 13 \<and> list_all isDigit ''1116012345678''
   \<and> ''1116012345678'' ! 4 = CHR ''0'' \<and> officeNumbersConsistent sampleRegistry
   \<and> valid (validateSteuernummer sampleRegistry ''1116012345678'')
   \<and> \<not> allZeros (oldFormatProjection ''1116012345678'')
   \<and> oldFormatProjection ''1116012345678'' = ''1612345678''
   \<and> valid (validateSteuernummer sampleRegistry ''1612345678'')"
proof -
  have h: "length ''1116012345678'' = 13" "list_all isDigit ''1116012345678''"
    "''1116012345678'' ! 4 = CHR ''0''" "officeNumbersConsistent sampleRegistry"
    "valid (validateSteuernummer sampleRegistry ''1116012345678'')"
    "\<not> allZeros (oldFormatProjection ''1116012345678'')"
    using sample_check_ok
    by (simp_all add: js_defs officeNumbersConsistent_def sampleRegistry_def
        oldFormatProjection_def validateSteuernummer_def normalizeSteuernummer_def
        validate13DigitFormat_def BUFA_MAP_def accepted_def)
  have p: "oldFormatProjection ''1116012345678'' = ''1612345678''"
    by (simp add: oldFormatProjection_def substring_def)
  from old_format_round_trip[OF h] h p show ?thesis by simp
qed

section \<open>The standard checksum procedure\<close>

lemma foldl_addTerm_sum:
  "(\<And>i. i \<in> set ixs \<Longrightarrow> jsNumberAt s i = Some (g i)) \<Longrightarrow>
   foldl (addTerm s f) (Some a) ixs = Some (a + sum_list (map (\<lambda>i. f (g i) i) ixs))"
  by (induction ixs arbitrary: a) (simp_all add: addTerm_def add.assoc)

lemma jsNumberAt_digit:
  "list_all isDigit s \<Longrightarrow> i < length s \<Longrightarrow> jsNumberAt s i = Some (digitValue (s ! i))"
  by (simp add: jsNumberAt_def list_all_length)

lemma digitValue_less: "isDigit c \<Longrightarrow> digitValue c < 10"
  by (auto simp: isDigit_def digitValue_def)

lemma digitSum_two_digits:
  assumes "9 < p" and "p \<le> 18"
  shows "digitSum p = p mod 10 + 1" and "digitSum p = p - 9"
proof -
  have d: "p div 10 = 1" using assms by simp
  have "digitSum p = p mod 10 + digitSum (p div 10)"
    using assms(1) by (subst digitSum.simps) simp
  also have "digitSum (p div 10) = 1"
    unfolding d by (subst digitSum.simps) simp
  finally show "digitSum p = p mod 10 + 1" .
  then show "digitSum p = p - 9" using assms d by presburger
qed

lemma bayernBase_nth: "i < 12 \<Longrightarrow> bayernBase ! i = (if even i then 1 else 2)"
proof -
  assume "i < 12"
  then have "i \<in> set [0..<12]" by simp
  then show ?thesis unfolding upt_12 by (auto simp: bayernBase_def)
qed

lemma bayernTerm_standardTerm:
  assumes "d < 10" and "i < 12"
  shows "bayernTerm d i = standardTerm i d"
proof -
  let ?p = "d * (if even i then 1 else 2)"
  have "?p \<le> 18" using assms(1) by auto
  then have "9 < ?p \<Longrightarrow> ?p mod 10 + 1 = digitSum ?p"
    using digitSum_two_digits(1)[of ?p] by simp
  then show ?thesis
    by (simp add: bayernTerm_def standardTerm_def bayernBase_nth[OF assms(2)] Let_def)
qed

lemma pruefzifferBayern_standard:
  assumes "length s = 13" and "list_all isDigit s"
  shows "pruefzifferBayern s = Some (standardCheckDigit (map digitValue (take 12 s)))"
proof -
  have js: "\<And>i. i \<in> set [0..<12] \<Longrightarrow> jsNumberAt s i = Some (digitValue (s ! i))"
    using assms by (simp add: jsNumberAt_digit)
  have tm: "\<And>i. i \<in> set [0..<12] \<Longrightarrow>
      bayernTerm (digitValue (s ! i)) i = standardTerm i (map digitValue (take 12 s) ! i)"
  proof -
    fix i assume "i \<in> set [0..<12]"
    then have i: "i < 12" by simp
    then have "isDigit (s ! i)" using assms by (simp add: list_all_length)
    then have "digitValue (s ! i) < 10" by (rule digitValue_less)
    then show "bayernTerm (digitValue (s ! i)) i = standardTerm i (map digitValue (take 12 s) ! i)"
      using i assms(1) by (simp add: bayernTerm_standardTerm)
  qed
  have "foldl (addTerm s bayernTerm) (Some 0) [0..<12]
        = Some (0 + sum_list (map (\<lambda>i. bayernTerm (digitValue (s ! i)) i) [0..<12]))"
    using js by (rule foldl_addTerm_sum)
  also have "map (\<lambda>i. bayernTerm (digitValue (s ! i)) i) [0..<12]
        = map (\<lambda>i. standardTerm i (map digitValue (take 12 s) ! i)) [0..<12]"
    using tm by (rule map_cong[OF refl])
  finally show ?thesis
    by (simp add: pruefzifferBayern_def standardCheckDigit_def)
qed

text \<open>
  Claim C6. For a 13-digit string and a procedure name other than \<^verbatim>\<open>BERLIN_A\<close>,
  \<^verbatim>\<open>BERLIN_B\<close>, \<^verbatim>\<open>BAYERN_11ER\<close> and \<^verbatim>\<open>NRW\<close>, the checksum engine compares the
  13th digit with the check digit of the "standard" procedure as the specification
  defines it. The term the code adds for a digit \<open>d\<close> at position \<open>i\<close> is the
  specification's term; for a product of a digit and 2 that exceeds 9, the code's
  reduction \<open>(p mod 10) + 1\<close> is the digit sum of the product, which is the product
  minus 9.
\<close>

theorem standard_procedure_is_reference:
  assumes "length s = 13" and "list_all isDigit s"
    and "verfahren info \<notin> {''BERLIN_A'', ''BERLIN_B'', ''BAYERN_11ER'', ''NRW''}"
    and "d < 10" and "i < 12"
  shows "validatePruefziffer s info
           = (standardCheckDigit (map digitValue (take 12 s)) = digitValue (s ! 12))
       \<and> bayernTerm d i = standardTerm i d
       \<and> (9 < 2 * d \<longrightarrow> (2 * d) mod 10 + 1 = digitSum (2 * d) \<and> digitSum (2 * d) = 2 * d - 9)"
proof -
  have "jsNumberAt s 12 = Some (digitValue (s ! 12))"
    using assms(1,2) by (simp add: jsNumberAt_digit)
  then have "validatePruefziffer s info
           = (standardCheckDigit (map digitValue (take 12 s)) = digitValue (s ! 12))"
    using assms(3) pruefzifferBayern_standard[OF assms(1,2)]
    by (simp add: validatePruefziffer_def numEq_def)
  moreover have "bayernTerm d i = standardTerm i d"
    using assms(4,5) by (rule bayernTerm_standardTerm)
  moreover have "9 < 2 * d \<longrightarrow> (2 * d) mod 10 + 1 = digitSum (2 * d) \<and> digitSum (2 * d) = 2 * d - 9"
    using assms(4) digitSum_two_digits[of "2 * d"] by simp
  ultimately show ?thesis by blast
qed

theorem standard_procedure_is_reference_witness:
  "length ''2893081508158'' = 13 \<and> list_all isDigit ''2893081508158''
   \<and> verfahren \<lparr>finanzamtsnummer = ''93'', verfahren = ''STANDARD'', bundesland = ''BW''\<rparr>
       \<notin> {''BERLIN_A'', ''BERLIN_B'', ''BAYERN_11ER'', ''NRW''}
   \<and> (7::nat) < 10 \<and> (1::nat) < 12
   \<and> validatePruefziffer ''2893081508158''
       \<lparr>finanzamtsnummer = ''93'', verfahren = ''STANDARD'', bundesland = ''BW''\<rparr>
   \<and> standardCheckDigit (map digitValue (take 12 ''2893081508158''))
       = digitValue (''2893081508158'' ! 12)
   \<and> bayernTerm 7 1 = standardTerm 1 7
   \<and> digitSum 14 = 5"
proof -
  let ?i = "\<lparr>finanzamtsnummer = ''93'', verfahren = ''STANDARD'', bundesland = ''BW''\<rparr>"
  have h: "length ''2893081508158'' = 13" "list_all isDigit ''2893081508158''"
    "verfahren ?i \<notin> {''BERLIN_A'', ''BERLIN_B'', ''BAYERN_11ER'', ''NRW''}"
    "(7::nat) < 10" "(1::nat) < 12"
    by (simp_all add: js_defs)
  have v: "validatePruefziffer ''2893081508158'' ?i"
    by (simp add: checksum_defs upt_12 js_defs)
  from standard_procedure_is_reference[OF h] v h show ?thesis by simp
qed

section \<open>The tax ID\<close>

lemma filter_dropWhile_not: "filter (\<lambda>c. \<not> P c) (dropWhile P xs) = filter (\<lambda>c. \<not> P c) xs"
  by (induction xs) simp_all

lemma removeWhitespace_trim: "removeWhitespace (trim s) = removeWhitespace s"
  by (simp add: removeWhitespace_def trim_def filter_dropWhile_not flip: rev_filter)

lemma specTaxIdStep_range: "1 \<le> specTaxIdStep p d \<and> specTaxIdStep p d \<le> 10"
proof -
  define sm where "sm = (if (d + p) mod 10 = 0 then 10 else (d + p) mod 10)"
  have "1 \<le> sm \<and> sm \<le> 10" unfolding sm_def by auto
  then have "1 \<le> (2 * sm) mod 11 \<and> (2 * sm) mod 11 \<le> 10" by presburger
  then show ?thesis by (simp add: specTaxIdStep_def sm_def Let_def)
qed

lemma foldl_specTaxIdStep_range:
  "1 \<le> p \<Longrightarrow> p \<le> 10 \<Longrightarrow> 1 \<le> foldl specTaxIdStep p ds \<and> foldl specTaxIdStep p ds \<le> 10"
proof (induction ds arbitrary: p)
  case Nil
  then show ?case by simp
next
  case (Cons a ds)
  have "1 \<le> specTaxIdStep p a \<and> specTaxIdStep p a \<le> 10" by (rule specTaxIdStep_range)
  then show ?case using Cons.IH by simp
qed

lemma specTaxIdProduct_range: "1 \<le> specTaxIdProduct ds \<and> specTaxIdProduct ds \<le> 10"
  unfolding specTaxIdProduct_def by (rule foldl_specTaxIdStep_range) simp_all

lemma parseIntCharAt_digit:
  "list_all isDigit s \<Longrightarrow> i < length s \<Longrightarrow> parseIntCharAt s i = Some (digitValue (s ! i))"
  by (simp add: parseIntCharAt_def list_all_length)

lemma taxIdStep_digit:
  "list_all isDigit s \<Longrightarrow> i < length s \<Longrightarrow>
   taxIdStep s (Some p) i = Some (specTaxIdStep p (digitValue (s ! i)))"
  by (simp add: taxIdStep_def parseIntCharAt_digit specTaxIdStep_def Let_def)

lemma foldl_taxIdStep:
  assumes "list_all isDigit s"
  shows "k \<le> length s \<Longrightarrow>
         foldl (taxIdStep s) (Some p) [0..<k] = Some (foldl specTaxIdStep p (map digitValue (take k s)))"
proof (induction k)
  case 0
  then show ?case by simp
next
  case (Suc k)
  then have k: "k < length s" by simp
  have "foldl (taxIdStep s) (Some p) [0..<Suc k]
        = taxIdStep s (foldl (taxIdStep s) (Some p) [0..<k]) k" by simp
  also have "\<dots> = taxIdStep s (Some (foldl specTaxIdStep p (map digitValue (take k s)))) k"
    using Suc k by simp
  also have "\<dots> = Some (specTaxIdStep (foldl specTaxIdStep p (map digitValue (take k s)))
                          (digitValue (s ! k)))"
    using assms k by (rule taxIdStep_digit)
  also have "\<dots> = Some (foldl specTaxIdStep p (map digitValue (take (Suc k) s)))"
    using k by (simp add: take_Suc_conv_app_nth)
  finally show ?case .
qed

lemma calculateTaxIdCheckDigit_spec:
  assumes "list_all isDigit s"
  shows "calculateTaxIdCheckDigit s = Some (specTaxIdCheckDigit (map digitValue s))"
proof -
  have f: "foldl (taxIdStep s) (Some 10) [0..<length s] = Some (specTaxIdProduct (map digitValue s))"
    using foldl_taxIdStep[OF assms, of "length s" 10] by (simp add: specTaxIdProduct_def)
  have r: "1 \<le> specTaxIdProduct (map digitValue s) \<and> specTaxIdProduct (map digitValue s) \<le> 10"
    by (rule specTaxIdProduct_range)
  then have "(11 - specTaxIdProduct (map digitValue s)) mod 11 = 11 - specTaxIdProduct (map digitValue s)"
    by simp
  then show ?thesis
    by (simp add: calculateTaxIdCheckDigit_def f specTaxIdCheckDigit_def Let_def)
qed

lemma validateGermanTaxId_spec:
  "validateGermanTaxId s =
     (let c = removeWhitespace s
      in length c = 11 \<and> list_all isDigit c
         \<and> digitValue (c ! 10) = specTaxIdCheckDigit (map digitValue (take 10 c)))"
proof -
  let ?c = "removeWhitespace s"
  show ?thesis
  proof (cases "length ?c = 11 \<and> list_all isDigit ?c")
    case False
    then show ?thesis
      by (auto simp: validateGermanTaxId_def removeWhitespace_trim Let_def)
  next
    case True
    then have d: "list_all isDigit (take 10 ?c)"
      by (auto simp: list_all_iff dest: in_set_takeD)
    have p: "parseIntCharAt ?c 10 = Some (digitValue (?c ! 10))"
      using True by (simp add: parseIntCharAt_digit)
    show ?thesis
      using True
      by (auto simp: validateGermanTaxId_def removeWhitespace_trim Let_def substring_def
          calculateTaxIdCheckDigit_spec[OF d] p numEq_def)
  qed
qed

lemma digitValue_9: "isDigit x \<Longrightarrow> digitValue x = 9 \<Longrightarrow> x = CHR ''9''"
proof -
  assume "isDigit x" "digitValue x = 9"
  then have "(of_char x :: nat) = of_char (CHR ''9'')"
    by (simp add: isDigit_def digitValue_def)
  then show ?thesis by (simp only: of_char_eq_iff)
qed

lemma isDigit_not_space: "isDigit x \<Longrightarrow> \<not> isSpace x"
  by (auto simp: isDigit_def isSpace_def)

lemma spec_check_example: "specTaxIdCheckDigit (map digitValue ''8609574271'') = 9"
  by (simp add: specTaxIdCheckDigit_def specTaxIdProduct_def specTaxIdStep_def digitValue_def)

lemma code_example: "validateGermanTaxId ''86095742719''"
  by (simp add: validateGermanTaxId_def trim_def removeWhitespace_def js_defs parseIntCharAt_def
     calculateTaxIdCheckDigit_def taxIdStep_def numEq_def upt_rec)

text \<open>
  Claim C7. \<^verbatim>\<open>validateGermanTaxId\<close> accepts a string exactly when, with its white space
  removed, it consists of 11 digits and the 11th is the check digit that the
  specification's algorithm computes from the first ten. The check digit of 8609574271
  is 9, so 86095742719 is accepted, and with any other digit in the 11th place it is
  rejected.
\<close>

theorem tax_id_check_digit_correct:
  "validateGermanTaxId s =
     (let c = removeWhitespace s
      in length c = 11 \<and> list_all isDigit c
         \<and> digitValue (c ! 10) = specTaxIdCheckDigit (map digitValue (take 10 c)))
   \<and> specTaxIdCheckDigit (map digitValue ''8609574271'') = 9
   \<and> validateGermanTaxId ''86095742719''
   \<and> (isDigit x \<and> x \<noteq> CHR ''9'' \<longrightarrow> \<not> validateGermanTaxId (''8609574271'' @ [x]))"
proof -
  have "\<not> validateGermanTaxId (''8609574271'' @ [x])" if "isDigit x" "x \<noteq> CHR ''9''"
  proof -
    have "removeWhitespace (''8609574271'' @ [x]) = ''8609574271'' @ [x]"
      using isDigit_not_space[OF that(1)] by (simp add: removeWhitespace_def isSpace_def)
    moreover have "digitValue x \<noteq> 9" using that digitValue_9 by blast
    ultimately show ?thesis
      using spec_check_example by (simp add: validateGermanTaxId_spec)
  qed
  then show ?thesis
    using validateGermanTaxId_spec spec_check_example code_example by blast
qed

theorem tax_id_check_digit_correct_witness:
  "isDigit (CHR ''0'') \<and> CHR ''0'' \<noteq> CHR ''9'' \<and> \<not> validateGermanTaxId ''86095742710''"
proof -
  have h: "isDigit (CHR ''0'') \<and> CHR ''0'' \<noteq> CHR ''9''"
    by (simp add: isDigit_def)
  from tax_id_check_digit_correct[of "''86095742719''" "CHR ''0''"]
  have "isDigit (CHR ''0'') \<and> CHR ''0'' \<noteq> CHR ''9''
        \<longrightarrow> \<not> validateGermanTaxId (''8609574271'' @ [CHR ''0''])"
    by blast
  with h show ?thesis by simp
qed

section \<open>IBAN\<close>

lemma digitChar_digit:
  assumes "d < 10"
  shows "isDigit (digitChar d) \<and> digitValue (digitChar d) = d"
proof -
  from assms have "d = 0 \<or> d = 1 \<or> d = 2 \<or> d = 3 \<or> d = 4 \<or> d = 5 \<or> d = 6 \<or> d = 7
      \<or> d = 8 \<or> d = 9" by arith
  then show ?thesis
    by (auto simp: digitChar_def isDigit_def digitValue_def)
qed

lemma natToString_two_digits:
  assumes "10 \<le> v" and "v < 100"
  shows "natToString v = [digitChar (v div 10), digitChar (v mod 10)]"
proof -
  have "v div 10 < 10" using assms by simp
  then have "natToString (v div 10) = [digitChar (v div 10)]"
    by (subst natToString.simps) simp
  then show ?thesis
    using assms(1) by (subst natToString.simps) simp
qed

lemma letter_digits:
  assumes "isUpper c"
  shows "list_all isDigit (natToString ((of_char c :: nat) - 55))"
    and "map digitValue (natToString ((of_char c :: nat) - 55)) = specCharDigits c"
proof -
  let ?v = "(of_char c :: nat) - 55"
  have v: "10 \<le> ?v" "?v < 100" using assms by (auto simp: isUpper_def)
  have s: "specLetterNumber c = ?v"
    using assms by (simp add: specLetterNumber_def isUpper_def)
  have d: "?v div 10 < 10" "?v mod 10 < 10" using v by simp_all
  show "list_all isDigit (natToString ?v)"
    using digitChar_digit[OF d(1)] digitChar_digit[OF d(2)]
    by (simp add: natToString_two_digits[OF v])
  show "map digitValue (natToString ?v) = specCharDigits c"
    using digitChar_digit[OF d(1)] digitChar_digit[OF d(2)] assms
    by (simp add: natToString_two_digits[OF v] specCharDigits_def s)
qed

lemma upper_not_digit: "isUpper c \<Longrightarrow> \<not> isDigit c"
  by (auto simp: isUpper_def isDigit_def)

lemma lettersToNumbers_digits:
  "list_all (\<lambda>c. isUpper c \<or> isDigit c) r \<Longrightarrow>
   list_all isDigit (lettersToNumbers r)
   \<and> map digitValue (lettersToNumbers r) = concat (map specCharDigits r)"
proof (induction r)
  case Nil
  then show ?case by simp
next
  case (Cons c r)
  show ?case
  proof (cases "isUpper c")
    case True
    with Cons letter_digits[OF True] show ?thesis by simp
  next
    case False
    with Cons show ?thesis by (simp add: specCharDigits_def)
  qed
qed



lemma foldl_mod97Step:
  assumes "list_all isDigit s"
  shows "k \<le> length s \<Longrightarrow>
         foldl (mod97Step s) (Some r) [0..<k]
         = Some (foldl specMod97Step r (map digitValue (take k s)))"
proof (induction k)
  case 0
  then show ?case by simp
next
  case (Suc k)
  then have k: "k < length s" by simp
  have "foldl (mod97Step s) (Some r) [0..<Suc k]
        = mod97Step s (foldl (mod97Step s) (Some r) [0..<k]) k" by simp
  also have "\<dots> = mod97Step s (Some (foldl specMod97Step r (map digitValue (take k s)))) k"
    using Suc k by simp
  also have "\<dots> = Some (foldl specMod97Step r (map digitValue (take (Suc k) s)))"
    using assms k
    by (simp add: mod97Step_def parseIntCharAt_digit take_Suc_conv_app_nth specMod97Step_def)
  finally show ?case .
qed

lemma matchesIbanPattern_spec:
  "5 \<le> length c \<Longrightarrow> matchesIbanPattern c = specIbanFormat c"
  by (cases c rule: specIbanFormat.cases) (auto simp: matchesIbanPattern_def)

lemma pattern_alnum:
  "specIbanFormat c \<Longrightarrow> list_all (\<lambda>c. isUpper c \<or> isDigit c) (drop 4 c @ take 4 c)"
  by (cases c rule: specIbanFormat.cases) auto

lemma cleaned_trim:
  "toUpperCase (removeWhitespace (trim s)) = toUpperCase (removeWhitespace s)"
  by (simp add: removeWhitespace_trim)

text \<open>
  Claim C10. \<^verbatim>\<open>validateIBAN\<close> accepts a string exactly when, with white space removed
  and in upper case, it has 15 to 34 characters, consists of two letters, two digits and
  alphanumerics, starts with a code of the country code list, and the digit sequence
  obtained by moving its first four characters to the end and writing each letter as its
  two-digit number (A = 10, ..., Z = 35) leaves the remainder 1 under the iteration
  \<open>remainder = (remainder * 10 + digit) mod 97\<close>.
\<close>

theorem validateIBAN_is_mod97: "validateIBAN countryCodes s = specValidIBAN countryCodes s"
proof -
  let ?c = "toUpperCase (removeWhitespace s)"
  show ?thesis
  proof (cases "15 \<le> length ?c \<and> length ?c \<le> 34 \<and> specIbanFormat ?c
                \<and> take 2 ?c \<in> set countryCodes")
    case False
    then show ?thesis
      by (auto simp: validateIBAN_def specValidIBAN_def cleaned_trim Let_def
          matchesIbanPattern_spec substring_def)
  next
    case True
    let ?r = "drop 4 ?c @ take 4 ?c"
    let ?ns = "lettersToNumbers ?r"
    have al: "list_all (\<lambda>c. isUpper c \<or> isDigit c) ?r"
      using True pattern_alnum by blast
    note dg = lettersToNumbers_digits[OF al]
    have "foldl (mod97Step ?ns) (Some 0) [0..<length ?ns]
          = Some (foldl specMod97Step 0 (map digitValue (take (length ?ns) ?ns)))"
      using dg by (intro foldl_mod97Step) simp_all
    then have f: "foldl (mod97Step ?ns) (Some 0) [0..<length ?ns]
          = Some (specMod97 (concat (map specCharDigits ?r)))"
      using dg by (simp add: specMod97_def)
    have m: "matchesIbanPattern ?c" using True by (simp add: matchesIbanPattern_spec)
    show ?thesis
      using True m
      by (simp add: validateIBAN_def specValidIBAN_def cleaned_trim Let_def substring_def
          f numEq_def)
  qed
qed

lemma iban_example: "validateIBAN sampleCountryCodes ''DE89370400440532013000''"
  by (simp add: validateIBAN_def sampleCountryCodes_def trim_def removeWhitespace_def
      toUpperCase_def toUpper_def lowerLetters_def upperLetters_def
      isSpace_def isUpper_def isDigit_def digitValue_def matchesIbanPattern_def substring_def
      natToString.simps digitChar_def mod97Step_def parseIntCharAt_def numEq_def upt_rec)

section \<open>Formatting characters\<close>

lemma inserted_filter:
  assumes "inserted P s s'" and "\<And>c. P c \<Longrightarrow> \<not> Q c"
  shows "filter Q s' = filter Q s"
  using assms(1)
proof (induction rule: inserted.induct)
  case inserted_Nil
  show ?case by simp
next
  case (inserted_keep xs ys c)
  then show ?case by simp
next
  case (inserted_add c xs ys)
  then show ?case using assms(2) by simp
qed

lemma isFormatting_not_digit: "isFormatting c \<Longrightarrow> \<not> isDigit c"
  by (auto simp: isFormatting_def isDigit_def)

lemma isBlank_space: "isBlank c \<Longrightarrow> \<not> \<not> isSpace c"
  by (simp add: isBlank_def isSpace_def)

lemma normalizeSteuernummer_digits_only:
  "normalizeSteuernummer input =
     (let digits = removeNonDigits input
      in if length digits \<in> {10, 11, 12, 13} then digits else [])"
  by (auto simp: normalizeSteuernummer_def removeNonDigits_def Let_def)

lemma inserted_normalizeSteuernummer:
  assumes "inserted isFormatting s s'"
  shows "normalizeSteuernummer s' = normalizeSteuernummer s"
proof -
  have "removeNonDigits s' = removeNonDigits s"
    unfolding removeNonDigits_def using assms isFormatting_not_digit by (rule inserted_filter)
  then show ?thesis by (simp add: normalizeSteuernummer_digits_only)
qed

lemma inserted_removeWhitespace:
  assumes "inserted isBlank s s'"
  shows "removeWhitespace (trim s') = removeWhitespace (trim s)"
proof -
  have "removeWhitespace s' = removeWhitespace s"
    unfolding removeWhitespace_def using assms isBlank_space by (rule inserted_filter)
  then show ?thesis by (simp add: removeWhitespace_trim)
qed

lemmas clean_defs = trim_def removeWhitespace_def toUpperCase_def toUpper_def
      lowerLetters_def upperLetters_def
      isSpace_def isUpper_def isDigit_def substring_def

lemma iban_hyphen: "\<not> validateIBAN sampleCountryCodes ''DE89-370400440532013000''"
  by (simp add: validateIBAN_def clean_defs matchesIbanPattern_def)

lemma bic_ok: "validateBIC sampleCountryCodes ''DEUTDEFF''"
  by (simp add: validateBIC_def clean_defs matchesBic8_def sampleCountryCodes_def)

lemma bic_slash: "\<not> validateBIC sampleCountryCodes ''DEUT/DEFF''"
  by (simp add: validateBIC_def clean_defs)

lemma ins1: "inserted isFormatting ''DE89370400440532013000'' ''DE89-370400440532013000''"
  by (intro inserted_Nil inserted_keep inserted_add) (simp add: isFormatting_def)

lemma ins2: "inserted isFormatting ''DEUTDEFF'' ''DEUT/DEFF''"
  by (intro inserted_Nil inserted_keep inserted_add) (simp add: isFormatting_def)

text \<open>
  Claim C4, as stated: inserting spaces, slashes or hyphens into a valid tax number, IBAN
  or BIC does not change the validation outcome. \<^verbatim>\<open>validateIBAN\<close> and \<^verbatim>\<open>validateBIC\<close>
  remove white space only: a valid IBAN with a hyphen inserted and a valid BIC with a
  slash inserted are rejected.
\<close>

theorem formatting_tolerance_counterexample:
  "inserted isFormatting ''DE89370400440532013000'' ''DE89-370400440532013000''
   \<and> validateIBAN sampleCountryCodes ''DE89370400440532013000''
   \<and> \<not> validateIBAN sampleCountryCodes ''DE89-370400440532013000''
   \<and> inserted isFormatting ''DEUTDEFF'' ''DEUT/DEFF''
   \<and> validateBIC sampleCountryCodes ''DEUTDEFF''
   \<and> \<not> validateBIC sampleCountryCodes ''DEUT/DEFF''"
  using ins1 ins2 iban_example iban_hyphen bic_ok bic_slash by blast

text \<open>
  Claim C4, amended: inserting spaces, slashes or hyphens anywhere into any input leaves
  the outcome of \<^verbatim>\<open>validateSteuernummer\<close> unchanged; inserting spaces anywhere into any
  input leaves the results of \<^verbatim>\<open>validateIBAN\<close> and \<^verbatim>\<open>validateBIC\<close> unchanged.
\<close>

theorem formatting_tolerance:
  "(inserted isFormatting t t' \<longrightarrow> validateSteuernummer reg t' = validateSteuernummer reg t)
   \<and> (inserted isBlank s s' \<longrightarrow>
        validateIBAN countryCodes s' = validateIBAN countryCodes s
        \<and> validateBIC countryCodes s' = validateBIC countryCodes s)"
proof (intro conjI impI)
  assume "inserted isFormatting t t'"
  then have "normalizeSteuernummer t' = normalizeSteuernummer t"
    by (rule inserted_normalizeSteuernummer)
  then show "validateSteuernummer reg t' = validateSteuernummer reg t"
    by (simp add: validateSteuernummer_def)
next
  assume "inserted isBlank s s'"
  then have e: "removeWhitespace (trim s') = removeWhitespace (trim s)"
    by (rule inserted_removeWhitespace)
  show "validateIBAN countryCodes s' = validateIBAN countryCodes s"
    by (simp add: validateIBAN_def e)
  show "validateBIC countryCodes s' = validateBIC countryCodes s"
    by (simp add: validateBIC_def e)
qed

lemma ins3: "inserted isFormatting ''1116012345678'' ''11 16/012-345 678''"
  by (intro inserted_Nil inserted_keep inserted_add) (simp_all add: isFormatting_def)

lemma ins4: "inserted isBlank ''DE89370400440532013000'' ''DE89 3704 0044 0532 0130 00''"
  by (intro inserted_Nil inserted_keep inserted_add) (simp_all add: isBlank_def)

theorem formatting_tolerance_witness:
  "inserted isFormatting ''1116012345678'' ''11 16/012-345 678''
   \<and> valid (validateSteuernummer sampleRegistry ''11 16/012-345 678'')
   \<and> inserted isBlank ''DE89370400440532013000'' ''DE89 3704 0044 0532 0130 00''
   \<and> validateIBAN sampleCountryCodes ''DE89 3704 0044 0532 0130 00''"
proof -
  have v: "valid (validateSteuernummer sampleRegistry ''1116012345678'')"
    using sample_check_ok
    by (simp add: validateSteuernummer_def normalizeSteuernummer_def validate13DigitFormat_def
        js_defs sampleRegistry_def BUFA_MAP_def accepted_def)
  from formatting_tolerance[of "''1116012345678''" "''11 16/012-345 678''" sampleRegistry
      "''DE89370400440532013000''" "''DE89 3704 0044 0532 0130 00''" sampleCountryCodes]
    ins3 ins4 v iban_example
  show ?thesis by simp
qed

section \<open>White space and upper case beyond ASCII\<close>

text \<open>The no-break space is stripped like any other white space, and a sharp s is
  upper-cased to two letters before the length of a BIC is tested.\<close>

lemma toUpperCase_examples:
  "toUpperCase ''de89'' = ''DE89''"
  "toUpperCase [CHR 0xDF] = ''SS''"
  "toUpperCase [CHR 0xE4] = [CHR 0xC4]"
  "toUpperCase [CHR 0xF7] = [CHR 0xF7]"
  by (simp_all add: toUpperCase_def toUpper_def lowerLetters_def upperLetters_def)

lemma validateGermanTaxId_no_break_space:
  "validateGermanTaxId (''86095742719'' @ [CHR 0xA0])"
  by (simp add: validateGermanTaxId_def trim_def removeWhitespace_def js_defs parseIntCharAt_def
      calculateTaxIdCheckDigit_def taxIdStep_def numEq_def upt_rec)

lemma validateIBAN_no_break_space:
  "validateIBAN sampleCountryCodes (''DE89'' @ [CHR 0xA0] @ ''370400440532013000'')"
  by (simp add: validateIBAN_def sampleCountryCodes_def clean_defs digitValue_def
      matchesIbanPattern_def natToString.simps digitChar_def mod97Step_def
      parseIntCharAt_def numEq_def upt_rec)

lemma validateBIC_sharp_s: "validateBIC sampleCountryCodes (''DEUTDE'' @ [CHR 0xDF])"
  by (simp add: validateBIC_def clean_defs matchesBic8_def sampleCountryCodes_def)

end
